theory Spec2Isabelle
  imports Complex_Main "HOL-Library.AList"
begin

section \<open>JavaScript numbers\<close>

text \<open>
  Every numeric value of the program is a JavaScript \<^verbatim>\<open>number\<close>. It is embedded as a real
  number or \<open>NaN\<close>: arithmetic on \<open>Num\<close> values is the exact arithmetic of the reals (the
  rounding of IEEE doubles and the two infinities are not represented), and \<open>NaN\<close> is
  absorbing, as it is in the language. The only way the embedded code makes a \<open>NaN\<close> out of
  finite inputs is by arithmetic on \<^verbatim>\<open>undefined\<close> (a failed table lookup), by a zero
  divisor, and by \<^verbatim>\<open>Math.asin\<close>/\<^verbatim>\<open>Math.acos\<close> outside \<open>[-1, 1]\<close>.
\<close>

datatype number = Num real | NaN

text \<open>Rounding towards zero, as the remainder operator \<^verbatim>\<open>%\<close> of the language does.\<close>

definition trunc :: "real \<Rightarrow> int" where
  "trunc x = (if x < 0 then - \<lfloor>- x\<rfloor> else \<lfloor>x\<rfloor>)"

text \<open>
  The operators of the language on \<open>number\<close>: \<open>+\<close>, \<open>-\<close>, \<open>*\<close>, \<open>/\<close> and \<open>mod\<close>, which
  stands for \<^verbatim>\<open>%\<close> (the remainder takes the sign of the dividend); \<open>\<le>\<close> and \<open><\<close> are false
  as soon as one side is \<open>NaN\<close>. A quotient by zero is \<open>NaN\<close> here (the language gives an
  infinity for a non-zero dividend); every divisor in the embedded code is a non-zero
  constant, except in the house-cusp formula, whose quotient is the argument of
  \<^verbatim>\<open>Math.acos\<close>, where an infinity gives \<open>NaN\<close> as well.
\<close>

instantiation number :: "{one, times, inverse, modulo, abs, sgn, ord, uminus, minus, comm_monoid_add, numeral, power}"
begin

definition zero_number :: number where
  "zero_number = Num 0"

definition one_number :: number where
  "one_number = Num 1"

fun plus_number :: "number \<Rightarrow> number \<Rightarrow> number" where
  "plus_number (Num a) (Num b) = Num (a + b)"
| "plus_number _ _ = NaN"

fun minus_number :: "number \<Rightarrow> number \<Rightarrow> number" where
  "minus_number (Num a) (Num b) = Num (a - b)"
| "minus_number _ _ = NaN"

fun uminus_number :: "number \<Rightarrow> number" where
  "uminus_number (Num a) = Num (- a)"
| "uminus_number NaN = NaN"

fun times_number :: "number \<Rightarrow> number \<Rightarrow> number" where
  "times_number (Num a) (Num b) = Num (a * b)"
| "times_number _ _ = NaN"

fun divide_number :: "number \<Rightarrow> number \<Rightarrow> number" where
  "divide_number (Num a) (Num b) = (if b = 0 then NaN else Num (a / b))"
| "divide_number _ _ = NaN"

definition inverse_number :: "number \<Rightarrow> number" where
  "inverse_number x = divide (Num 1) x"

fun modulo_number :: "number \<Rightarrow> number \<Rightarrow> number" where
  "modulo_number (Num a) (Num b) =
     (if b = 0 then NaN else Num (a - b * of_int (trunc (a / b))))"
| "modulo_number _ _ = NaN"

fun abs_number :: "number \<Rightarrow> number" where
  "abs_number (Num a) = Num \<bar>a\<bar>"
| "abs_number NaN = NaN"

fun sgn_number :: "number \<Rightarrow> number" where
  "sgn_number (Num a) = Num (sgn a)"
| "sgn_number NaN = NaN"

fun less_eq_number :: "number \<Rightarrow> number \<Rightarrow> bool" where
  "less_eq_number (Num a) (Num b) = (a \<le> b)"
| "less_eq_number _ _ = False"

fun less_number :: "number \<Rightarrow> number \<Rightarrow> bool" where
  "less_number (Num a) (Num b) = (a < b)"
| "less_number _ _ = False"

instance
proof
  fix x y z :: number
  show "x + y = y + x"
    by (cases x; cases y; simp)
  show "0 + x = x"
    by (cases x; simp add: zero_number_def)
  show "x + y + z = x + (y + z)"
    by (cases x; cases y; cases z; simp)
qed

end

text \<open>\<^verbatim>\<open>===\<close> on two numbers: \<open>NaN\<close> is equal to nothing, itself included.\<close>

fun strict_eq :: "number \<Rightarrow> number \<Rightarrow> bool" where
  "strict_eq (Num a) (Num b) = (a = b)"
| "strict_eq _ _ = False"

text \<open>
  Arithmetic on the result of a table lookup: \<^verbatim>\<open>undefined\<close> (\<open>None\<close>) becomes \<open>NaN\<close>.
\<close>

fun toNumber :: "number option \<Rightarrow> number" where
  "toNumber (Some n) = n"
| "toNumber None = NaN"

text \<open>The functions of \<^verbatim>\<open>Math\<close> the code calls. \<^verbatim>\<open>Math.round\<close> rounds a half upwards.\<close>

fun Math_floor :: "number \<Rightarrow> number" where
  "Math_floor (Num a) = Num (of_int \<lfloor>a\<rfloor>)"
| "Math_floor NaN = NaN"

fun Math_round :: "number \<Rightarrow> number" where
  "Math_round (Num a) = Num (of_int \<lfloor>a + 1 / 2\<rfloor>)"
| "Math_round NaN = NaN"

definition Math_abs :: "number \<Rightarrow> number" where
  "Math_abs x = \<bar>x\<bar>"

definition Math_sign :: "number \<Rightarrow> number" where
  "Math_sign x = sgn x"








section \<open>Dates\<close>

text \<open>
  A \<^verbatim>\<open>Date\<close> as the code observes it: through \<^verbatim>\<open>getTime\<close> (milliseconds since the epoch)
  and through the calendar getters of the local time zone. The calendar arithmetic that
  relates them belongs to the runtime and is not used by the code.
\<close>

record Date =
  getTime :: number
  getFullYear :: number
  getMonth :: number
  getDate :: number
  getHours :: number
  getMinutes :: number
  getSeconds :: number

section \<open>astronomy.ts: AstronomicalCalculator\<close>

definition J2000 :: number where
  "J2000 = Num 2451545.0"

definition calculateJulianDate :: "Date \<Rightarrow> number" where
  "calculateJulianDate date =
     (let y = getFullYear date;
          m = getMonth date + 1;
          d = getDate date;
          h = getHours date + getMinutes date / 60 + getSeconds date / 3600;
          jd = 367 * y - Math_floor (7 * (y + Math_floor ((m + 9) / 12)) / 4);
          jd = jd + (Math_floor (275 * m / 9) + d + Num 1721013.5 + h / 24);
          jd = jd - (Num 0.5 * Math_sign (100 * y + m - Num 190002.5) + Num 0.5)
      in jd)"


section \<open>types/astrology.ts\<close>

record CelestialPosition =
  longitude :: number
  latitude :: number
  speed :: number

record PlanetaryPosition = CelestialPosition +
  planet :: string
  house :: number
  sign :: number
  nakshatra :: number
  nakshatraPada :: number
  degree :: number
  minutes :: number
  isRetrograde :: bool

text \<open>
  The \<open>planets\<close> of a chart are an object; its entries are kept in insertion order, which
  is the order \<^verbatim>\<open>Object.entries\<close> walks them in. The chart's own \<^verbatim>\<open>latitude\<close> and
  \<^verbatim>\<open>longitude\<close> are prefixed, as a position has fields of the same names.
\<close>

record BirthChart =
  datetime :: string
  timezone :: string
  chart_latitude :: number
  chart_longitude :: number
  houses :: "number list"
  planets :: "(string \<times> PlanetaryPosition) list"

section \<open>core.ts: AstrologyCalculator\<close>

definition NAKSHATRA_SPAN :: number where
  "NAKSHATRA_SPAN = Num 13.333333"

definition PADA_SPAN :: number where
  "PADA_SPAN = Num 3.333333"

definition SIGN_SPAN :: number where
  "SIGN_SPAN = 30"

text \<open>The object \<^verbatim>\<open>{degrees, minutes, seconds}\<close> is returned as a triple.\<close>

definition decimalToDMS :: "number \<Rightarrow> number \<times> number \<times> number" where
  "decimalToDMS decimal =
     (let degrees = Math_floor decimal;
          minutesDecimal = (decimal - degrees) * 60;
          minutes' = Math_floor minutesDecimal;
          seconds = Math_floor ((minutesDecimal - minutes') * 60)
      in (degrees, minutes', seconds))"

definition normalizeAngle :: "number \<Rightarrow> number" where
  "normalizeAngle angle = ((angle mod 360) + 360) mod 360"

text \<open>The object \<^verbatim>\<open>{nakshatra, pada}\<close> is returned as a pair.\<close>

definition calculateNakshatra :: "number \<Rightarrow> number \<times> number" where
  "calculateNakshatra longitude' =
     (let normalizedLongitude = normalizeAngle longitude';
          nakshatraIndex = Math_floor (normalizedLongitude / NAKSHATRA_SPAN);
          nakshatra' = nakshatraIndex + 1;
          degreeInNakshatra = normalizedLongitude mod NAKSHATRA_SPAN;
          pada = Math_floor (degreeInNakshatra / PADA_SPAN) + 1
      in (nakshatra', pada))"

definition calculateSign :: "number \<Rightarrow> number" where
  "calculateSign longitude' = Math_floor (normalizeAngle longitude' / SIGN_SPAN) + 1"

definition calculateHouse :: "number \<Rightarrow> number \<Rightarrow> number" where
  "calculateHouse longitude' ascendant =
     (let distance = normalizeAngle (longitude' - ascendant)
      in Math_floor (distance / SIGN_SPAN) + 1)"

text \<open>The orb of \<^verbatim>\<open>isConjunction\<close> defaults to 10 where a caller leaves it out.\<close>

definition isConjunction ::
  "'a CelestialPosition_scheme \<Rightarrow> 'b CelestialPosition_scheme \<Rightarrow> number \<Rightarrow> bool" where
  "isConjunction p1 p2 orb =
     (let diff = Math_abs (longitude p1 - longitude p2)
      in diff \<le> orb \<or> (360 - diff) \<le> orb)"

text \<open>
  \<^verbatim>\<open>AstrologyCalculator.calculateAspect\<close>: the smaller angle between two positions. The
  transit calculator has a method of the same name, which keeps the plain name below.
\<close>

definition calculateAspect_core ::
  "'a CelestialPosition_scheme \<Rightarrow> 'b CelestialPosition_scheme \<Rightarrow> number" where
  "calculateAspect_core p1 p2 =
     (let diff = Math_abs (longitude p1 - longitude p2)
      in if 180 < diff then 360 - diff else diff)"

definition exaltations :: "(string \<times> number) list" where
  "exaltations =
     [(''sun'', 1), (''moon'', 2), (''mars'', 10), (''mercury'', 6),
      (''jupiter'', 4), (''venus'', 12), (''saturn'', 7)]"

definition isExalted :: "string \<Rightarrow> number \<Rightarrow> bool" where
  "isExalted planet' sign' =
     (case map_of exaltations planet' of
        None \<Rightarrow> False
      | Some e \<Rightarrow> strict_eq e sign')"

definition debilitations :: "(string \<times> number) list" where
  "debilitations =
     [(''sun'', 7), (''moon'', 8), (''mars'', 4), (''mercury'', 12),
      (''jupiter'', 10), (''venus'', 6), (''saturn'', 1)]"

definition isDebilitated :: "string \<Rightarrow> number \<Rightarrow> bool" where
  "isDebilitated planet' sign' =
     (case map_of debilitations planet' of
        None \<Rightarrow> False
      | Some d \<Rightarrow> strict_eq d sign')"

section \<open>transit.js: TransitCalculator\<close>

definition DAILY_MOTION :: "(string \<times> number) list" where
  "DAILY_MOTION =
     [(''sun'', Num 0.9856), (''moon'', Num 13.1763), (''mars'', Num 0.5240),
      (''mercury'', Num 1.3833), (''venus'', Num 1.2097), (''jupiter'', Num 0.0831),
      (''saturn'', Num 0.0334), (''rahu'', Num (- 0.0529)), (''ketu'', Num (- 0.0529))]"

definition daysBetween :: "Date \<Rightarrow> Date \<Rightarrow> number" where
  "daysBetween date1 date2 =
     (let oneDay = 24 * 60 * 60 * 1000
      in Math_round (Math_abs ((getTime date2 - getTime date1) / oneDay)))"

definition calculateTransitPosition ::
  "PlanetaryPosition \<Rightarrow> Date \<Rightarrow> Date \<Rightarrow> PlanetaryPosition" where
  "calculateTransitPosition birthPosition transitDate birthDate =
     (let daysDiff = daysBetween birthDate transitDate;
          motion = toNumber (map_of DAILY_MOTION (planet birthPosition));
          newLongitude = longitude birthPosition + (motion * daysDiff);
          newLongitude = ((newLongitude mod 360) + 360) mod 360;
          (nakshatra', pada) = calculateNakshatra newLongitude;
          sign' = calculateSign newLongitude;
          (degrees, minutes', seconds) = decimalToDMS (newLongitude mod 30)
      in birthPosition
           \<lparr>longitude := newLongitude,
            sign := sign',
            nakshatra := nakshatra',
            nakshatraPada := pada,
            degree := degrees,
            minutes := minutes',
            house := calculateHouse newLongitude (longitude birthPosition)\<rparr>)"

text \<open>
  The loop of \<^verbatim>\<open>calculateAllTransits\<close> over the entries of the chart; \<open>transits\<close> is the
  object it fills, an assignment to a key keeps the key's place or appends it.
\<close>

fun calculateAllTransits_loop ::
  "Date \<Rightarrow> Date \<Rightarrow> (string \<times> PlanetaryPosition) list \<Rightarrow> (string \<times> PlanetaryPosition) list
   \<Rightarrow> (string \<times> PlanetaryPosition) list" where
  "calculateAllTransits_loop transitDate birthDate [] transits = transits"
| "calculateAllTransits_loop transitDate birthDate ((planet', position) # entries) transits =
     calculateAllTransits_loop transitDate birthDate entries
       (if planet' \<noteq> ''ascendant''
        then AList.update planet' (calculateTransitPosition position transitDate birthDate) transits
        else AList.update planet' position transits)"

text \<open>
  \<open>newDate\<close> stands for the runtime's \<^verbatim>\<open>new Date(string)\<close>, which parses the chart's
  \<^verbatim>\<open>datetime\<close>.
\<close>

definition calculateAllTransits ::
  "(string \<Rightarrow> Date) \<Rightarrow> BirthChart \<Rightarrow> Date \<Rightarrow> (string \<times> PlanetaryPosition) list" where
  "calculateAllTransits newDate birthChart transitDate =
     (let birthDate = newDate (datetime birthChart)
      in calculateAllTransits_loop transitDate birthDate (planets birthChart) [])"

record AspectDef =
  angle :: number
  type :: string
  maxOrb :: number

text \<open>
  The object \<^verbatim>\<open>{type, orb}\<close> that \<^verbatim>\<open>calculateAspect\<close> returns; its \<^verbatim>\<open>type\<close> is prefixed, as
  an aspect definition has a field of that name.
\<close>

record Aspect =
  aspect_type :: string
  orb :: number

text \<open>The loop of \<^verbatim>\<open>calculateAspect\<close>: the first definition within its orb wins.\<close>

fun calculateAspect_loop :: "number \<Rightarrow> AspectDef list \<Rightarrow> Aspect option" where
  "calculateAspect_loop angle' [] = None"
| "calculateAspect_loop angle' (aspectDef # aspects) =
     (let orb' = Math_abs (angle' - angle aspectDef)
      in if orb' \<le> maxOrb aspectDef
         then Some \<lparr>aspect_type = type aspectDef, orb = orb'\<rparr>
         else calculateAspect_loop angle' aspects)"

text \<open>\<open>maxOrb\<close> defaults to 6 where a caller leaves it out.\<close>

definition calculateAspect ::
  "PlanetaryPosition \<Rightarrow> PlanetaryPosition \<Rightarrow> number \<Rightarrow> Aspect option" where
  "calculateAspect pos1 pos2 maxOrb' =
     (let angle' = Math_abs (longitude pos1 - longitude pos2) mod 360;
          aspects =
            [\<lparr>angle = 0, type = ''conjunction'', maxOrb = maxOrb'\<rparr>,
             \<lparr>angle = 60, type = ''sextile'', maxOrb = maxOrb'\<rparr>,
             \<lparr>angle = 90, type = ''square'', maxOrb = maxOrb'\<rparr>,
             \<lparr>angle = 120, type = ''trine'', maxOrb = maxOrb'\<rparr>,
             \<lparr>angle = 180, type = ''opposition'', maxOrb = maxOrb'\<rparr>]
      in calculateAspect_loop angle' aspects)"

section \<open>dasha.ts: DashaCalculator\<close>

text \<open>
  A period's \<^verbatim>\<open>planet\<close> is the result of an array read, so it can be \<^verbatim>\<open>undefined\<close>
  (\<open>None\<close>) where the index misses the array; the field is prefixed, as a position has a
  field of that name.
\<close>

datatype DashaPeriod =
  DashaPeriod (dasha_planet: "string option") (startDate: string) (endDate: string)
    (years: number) (subPeriods: "DashaPeriod list option")

text \<open>
  The functions of the library \<^verbatim>\<open>date-fns\<close> the calculator imports and calls; they are
  parameters of the embedding.
\<close>

record date_fns =
  addYears :: "Date \<Rightarrow> number \<Rightarrow> Date"
  addMonths :: "Date \<Rightarrow> number \<Rightarrow> Date"
  format :: "Date \<Rightarrow> string \<Rightarrow> string"

definition DASHA_YEARS :: "(string \<times> number) list" where
  "DASHA_YEARS =
     [(''sun'', 6), (''moon'', 10), (''mars'', 7), (''rahu'', 18), (''jupiter'', 16),
      (''saturn'', 19), (''mercury'', 17), (''ketu'', 7), (''venus'', 20)]"

definition NAKSHATRA_LORDS :: "string list" where
  "NAKSHATRA_LORDS =
     [''ketu'', ''venus'', ''sun'', ''moon'', ''mars'',
      ''rahu'', ''jupiter'', ''saturn'', ''mercury'']"

text \<open>
  An array read \<^verbatim>\<open>xs[i]\<close>: \<^verbatim>\<open>undefined\<close> unless the index is a whole number within the
  array. \<^verbatim>\<open>DASHA_YEARS[lord]\<close> is \<^verbatim>\<open>undefined\<close> for a lord that is itself \<^verbatim>\<open>undefined\<close>.
\<close>

fun array_get :: "'a list \<Rightarrow> number \<Rightarrow> 'a option" where
  "array_get xs (Num i) =
     (if i = of_int \<lfloor>i\<rfloor> \<and> 0 \<le> i \<and> nat \<lfloor>i\<rfloor> < length xs then Some (xs ! nat \<lfloor>i\<rfloor>) else None)"
| "array_get xs NaN = None"

fun indexOf_from :: "number \<Rightarrow> 'a list \<Rightarrow> 'a \<Rightarrow> number" where
  "indexOf_from i [] x = - 1"
| "indexOf_from i (y # ys) x = (if y = x then i else indexOf_from (i + 1) ys x)"

fun indexOf :: "string list \<Rightarrow> string option \<Rightarrow> number" where
  "indexOf xs (Some x) = indexOf_from 0 xs x"
| "indexOf xs None = - 1"

fun DASHA_YEARS_get :: "string option \<Rightarrow> number option" where
  "DASHA_YEARS_get (Some lord) = map_of DASHA_YEARS lord"
| "DASHA_YEARS_get None = None"

definition getNakshatraLord :: "number \<Rightarrow> string option" where
  "getNakshatraLord nakshatra' = array_get NAKSHATRA_LORDS ((nakshatra' - 1) mod 9)"

definition calculateDashaBalance :: "number \<Rightarrow> number \<Rightarrow> number" where
  "calculateDashaBalance nakshatra' degrees =
     (let lord = getNakshatraLord nakshatra';
          totalYears = toNumber (DASHA_YEARS_get lord);
          nakshatraSpan = 13 + 1 / 3;
          balanceDegrees = nakshatraSpan - degrees
      in (balanceDegrees / nakshatraSpan) * totalYears)"

text \<open>
  The loop of \<^verbatim>\<open>calculateAntarDasha\<close>, over the values \<open>0, \<dots>, 8\<close> of \<open>i\<close>; \<open>currentDate\<close>
  and \<open>antarDashas\<close> are its variables.
\<close>

fun calculateAntarDasha_loop ::
  "date_fns \<Rightarrow> number \<Rightarrow> number \<Rightarrow> number list \<Rightarrow> Date \<Rightarrow> DashaPeriod list
   \<Rightarrow> DashaPeriod list" where
  "calculateAntarDasha_loop fns startIndex years' [] currentDate antarDashas = antarDashas"
| "calculateAntarDasha_loop fns startIndex years' (i # is) currentDate antarDashas =
     (let lordIndex = (startIndex + i) mod 9;
          lord = array_get NAKSHATRA_LORDS lordIndex;
          subPeriodYears = (years' * toNumber (DASHA_YEARS_get lord)) / 120;
          endDate' = addYears fns currentDate (Math_floor subPeriodYears);
          remainingMonths = (subPeriodYears mod 1) * 12;
          finalEndDate = addMonths fns endDate' (Math_floor remainingMonths)
      in calculateAntarDasha_loop fns startIndex years' is finalEndDate
           (antarDashas @
            [DashaPeriod lord (format fns currentDate ''yyyy-MM-dd'')
               (format fns finalEndDate ''yyyy-MM-dd'') subPeriodYears (Some [])]))"

definition calculateAntarDasha ::
  "date_fns \<Rightarrow> string option \<Rightarrow> Date \<Rightarrow> number \<Rightarrow> DashaPeriod list" where
  "calculateAntarDasha fns mainLord startDate' years' =
     (let startIndex = indexOf NAKSHATRA_LORDS mainLord
      in calculateAntarDasha_loop fns startIndex years' [0, 1, 2, 3, 4, 5, 6, 7, 8]
           startDate' [])"

text \<open>
  The loop of \<^verbatim>\<open>calculateDashaPeriods\<close>; \<open>currentDate\<close>, \<open>foundStart\<close> and \<open>dashas\<close> are its
  variables. Once \<open>foundStart\<close> is set the index is within the array, so the read of
  \<^verbatim>\<open>DASHA_YEARS\<close> is a number there.
\<close>

fun calculateDashaPeriods_loop ::
  "date_fns \<Rightarrow> string option \<Rightarrow> number \<Rightarrow> number list \<Rightarrow> Date \<Rightarrow> bool \<Rightarrow> DashaPeriod list
   \<Rightarrow> DashaPeriod list" where
  "calculateDashaPeriods_loop fns startLord balance [] currentDate foundStart dashas = dashas"
| "calculateDashaPeriods_loop fns startLord balance (i # is) currentDate foundStart dashas =
     (let lordIndex = (indexOf NAKSHATRA_LORDS startLord + i) mod 9;
          lord = array_get NAKSHATRA_LORDS lordIndex;
          years' = (if foundStart then toNumber (DASHA_YEARS_get lord) else balance);
          startDate' = currentDate;
          endDate' = addYears fns startDate' years'
      in calculateDashaPeriods_loop fns startLord balance is endDate' True
           (dashas @
            [DashaPeriod lord (format fns startDate' ''yyyy-MM-dd'')
               (format fns endDate' ''yyyy-MM-dd'') years'
               (Some (calculateAntarDasha fns lord startDate' years'))]))"

definition calculateDashaPeriods ::
  "date_fns \<Rightarrow> Date \<Rightarrow> number \<Rightarrow> number \<Rightarrow> DashaPeriod list" where
  "calculateDashaPeriods fns birthDate nakshatra' degrees =
     (let balance = calculateDashaBalance nakshatra' degrees;
          startLord = getNakshatraLord nakshatra'
      in calculateDashaPeriods_loop fns startLord balance [0, 1, 2, 3, 4, 5, 6, 7, 8]
           birthDate False [])"

section \<open>houses.ts: HouseCalculator\<close>











section \<open>Formulas of the specification\<close>

text \<open>
  The modulus of mathematics, which the whole-sign formula of the specification uses: the
  result is never negative for a positive divisor.
\<close>

fun floor_mod :: "number \<Rightarrow> number \<Rightarrow> number" where
  "floor_mod (Num a) (Num b) = (if b = 0 then NaN else Num (a - b * of_int \<lfloor>a / b\<rfloor>))"
| "floor_mod _ _ = NaN"

text \<open>
  The whole-sign house as the specification words it:
  \<open>((sign(longitude) - sign(ascendant)) mod 12) + 1\<close>.
\<close>

definition wholeSignHouse :: "number \<Rightarrow> number \<Rightarrow> number" where
  "wholeSignHouse longitude' ascendant =
     floor_mod (calculateSign longitude' - calculateSign ascendant) 12 + 1"

text \<open>
  The days between two instants as the specification words them: signed and possibly
  fractional.
\<close>

definition daysBetween_signed :: "Date \<Rightarrow> Date \<Rightarrow> number" where
  "daysBetween_signed date1 date2 = (getTime date2 - getTime date1) / (24 * 60 * 60 * 1000)"

section \<open>Evaluation of number literals\<close>

lemma numeral_number: "(numeral k :: number) = Num (numeral k)"
  by (induction k) (simp_all only: numeral.simps one_number_def plus_number.simps)

lemma power_Num: "Num a ^ n = Num (a ^ n)"
  by (induction n) (simp_all add: one_number_def)

lemmas number_eval = numeral_number power_Num one_number_def zero_number_def
  Math_abs_def Math_sign_def trunc_def

section \<open>The Julian Day of the J2000.0 epoch\<close>

text \<open>
  C1. The claim is that the conversion gives exactly 2451545.0 for 2000-01-01 12:00, the
  constant \<open>J2000\<close> of the same class. The last statement of the function subtracts
  \<open>0.5 * sign(...) + 0.5\<close> as a whole where the standard formula has
  \<open>- 0.5 * sign(...) + 0.5\<close>, so every date comes out one day early: the code returns
  2451544.0 here.
\<close>

theorem calculateJulianDate_J2000_noon:
  "calculateJulianDate \<lparr>getTime = Num 946728000000, getFullYear = 2000, getMonth = 0,
      getDate = 1, getHours = 12, getMinutes = 0, getSeconds = 0\<rparr> = Num 2451544
   \<and> calculateJulianDate \<lparr>getTime = Num 946728000000, getFullYear = 2000, getMonth = 0,
      getDate = 1, getHours = 12, getMinutes = 0, getSeconds = 0\<rparr> \<noteq> J2000"
  by (simp add: calculateJulianDate_def J2000_def number_eval)

section \<open>Angles, signs and houses on finite numbers\<close>

lemma normalizeAngle_Num:
  "normalizeAngle (Num x) = Num (x - 360 * of_int \<lfloor>x / 360\<rfloor>)"
proof (cases "0 \<le> x")
  case True
  define r where "r = x - 360 * of_int \<lfloor>x / 360\<rfloor>"
  have r: "0 \<le> r" "r < 360"
    unfolding r_def by linarith+
  have t: "trunc (x / 360) = \<lfloor>x / 360\<rfloor>"
    using True by (simp add: trunc_def)
  have "\<lfloor>(r + 360) / 360\<rfloor> = 1"
    using r by (intro floor_unique) simp_all
  then have "trunc ((r + 360) / 360) = 1"
    using r by (simp add: trunc_def)
  then show ?thesis
    using t by (simp add: normalizeAngle_def numeral_number r_def)
next
  case False
  define p where "p = \<lfloor>- x / 360\<rfloor>"
  define r where "r = x + 360 * of_int p"
  have t: "trunc (x / 360) = - p"
    using False by (simp add: trunc_def p_def)
  have r: "- 360 < r" "r \<le> 0"
    unfolding r_def p_def by linarith+
  show ?thesis
  proof (cases "r = 0")
    case True
    then have x: "x / 360 = of_int (- p)"
      by (simp add: r_def)
    have "\<lfloor>x / 360\<rfloor> = - p"
      unfolding x by (rule floor_of_int)
    moreover have "trunc ((r + 360) / 360) = 1"
      using True by (simp add: trunc_def)
    ultimately show ?thesis
      using t True by (simp add: normalizeAngle_def numeral_number r_def)
  next
    case nonzero: False
    have "\<lfloor>(r + 360) / 360\<rfloor> = 0"
      using r nonzero by (intro floor_unique) simp_all
    then have t2: "trunc ((r + 360) / 360) = 0"
      using r by (simp add: trunc_def)
    have "\<lfloor>x / 360\<rfloor> = - p - 1"
      using r nonzero by (intro floor_unique) (simp_all add: r_def)
    then show ?thesis
      using t t2 by (simp add: normalizeAngle_def numeral_number r_def)
  qed
qed

lemma floor_360_div: "\<lfloor>y / 360\<rfloor> = \<lfloor>y / 30\<rfloor> div 12" for y :: real
  using floor_divide_real_eq_div [of 12 "y / 30"] by simp

lemma floor_normalized_30:
  "\<lfloor>(y - 360 * of_int \<lfloor>y / 360\<rfloor>) / 30\<rfloor> = \<lfloor>y / 30\<rfloor> mod 12" for y :: real
proof -
  have "(y - 360 * of_int \<lfloor>y / 360\<rfloor>) / 30 = y / 30 - of_int (12 * \<lfloor>y / 360\<rfloor>)"
    by simp
  then have "\<lfloor>(y - 360 * of_int \<lfloor>y / 360\<rfloor>) / 30\<rfloor> = \<lfloor>y / 30\<rfloor> - 12 * \<lfloor>y / 360\<rfloor>"
    by (simp only: floor_diff_of_int)
  also have "\<dots> = \<lfloor>y / 30\<rfloor> mod 12"
    unfolding floor_360_div by (simp add: minus_mult_div_eq_mod)
  finally show ?thesis .
qed

lemma degree_in_sign:
  "y - 360 * of_int \<lfloor>y / 360\<rfloor> - 30 * of_int (\<lfloor>y / 30\<rfloor> mod 12) = y - 30 * of_int \<lfloor>y / 30\<rfloor>"
  for y :: real
proof -
  have "\<lfloor>y / 30\<rfloor> mod 12 = \<lfloor>y / 30\<rfloor> - 12 * \<lfloor>y / 360\<rfloor>"
    unfolding floor_360_div by (simp add: minus_mult_div_eq_mod)
  then show ?thesis by simp
qed

lemma calculateSign_Num:
  "calculateSign (Num x) = Num (of_int (\<lfloor>x / 30\<rfloor> mod 12 + 1))"
  by (simp add: calculateSign_def normalizeAngle_Num SIGN_SPAN_def numeral_number
      one_number_def floor_normalized_30)

text \<open>The sign of a finite longitude is between 1 and 12.\<close>

lemma calculateSign_range:
  "1 \<le> calculateSign (Num x) \<and> calculateSign (Num x) \<le> 12"
proof -
  have "0 \<le> \<lfloor>x / 30\<rfloor> mod 12" "\<lfloor>x / 30\<rfloor> mod 12 < 12"
    by simp_all
  then show ?thesis
    by (simp add: calculateSign_Num number_eval)
qed

lemma calculateHouse_Num:
  "calculateHouse (Num l) (Num a) = Num (of_int (\<lfloor>(l - a) / 30\<rfloor> mod 12 + 1))"
  by (simp add: calculateHouse_def normalizeAngle_Num SIGN_SPAN_def numeral_number
      one_number_def floor_normalized_30)

lemma degree_Num:
  "normalizeAngle (Num x) mod 30 = Num (x - 30 * of_int \<lfloor>x / 30\<rfloor>)"
proof -
  define n where "n = x - 360 * of_int \<lfloor>x / 360\<rfloor>"
  have "0 \<le> n"
    unfolding n_def by linarith
  then have "trunc (n / 30) = \<lfloor>n / 30\<rfloor>"
    by (simp add: trunc_def)
  also have "\<dots> = \<lfloor>x / 30\<rfloor> mod 12"
    unfolding n_def by (rule floor_normalized_30)
  finally have "trunc (n / 30) = \<lfloor>x / 30\<rfloor> mod 12" .
  then have "normalizeAngle (Num x) mod 30 = Num (n - 30 * of_int (\<lfloor>x / 30\<rfloor> mod 12))"
    by (simp add: normalizeAngle_Num numeral_number n_def)
  then show ?thesis
    unfolding n_def by (simp only: degree_in_sign)
qed

lemma floor_mod_int: "floor_mod (Num (of_int m)) 12 = Num (of_int (m mod 12))"
proof -
  have "\<lfloor>real_of_int m / 12\<rfloor> = m div 12"
    using floor_divide_real_eq_div [of 12 "of_int m"] by simp
  moreover have "real_of_int (m mod 12) = real_of_int (m - 12 * (m div 12))"
    by (simp only: minus_mult_div_eq_mod)
  ultimately show ?thesis
    by (simp add: numeral_number)
qed

section \<open>Aspect detection\<close>

text \<open>
  C2. The claim: for longitudes in \<open>[0, 360)\<close>, \<open>calculateAspect\<close> of the transit calculator
  returns an aspect exactly when the minimal angular separation \<open>min(d, 360 - d)\<close>, with
  \<open>d = |lonA - lonB|\<close>, is within the orb of one of 0, 60, 90, 120 and 180. The code
  compares \<open>d mod 360\<close> itself, so a separation that wraps around 0 is missed: the Sun at
  359 and the Moon at 2 are 3 degrees apart, a conjunction by \<open>isConjunction\<close> and by the
  smaller angle that \<open>calculateAspect\<close> of \<open>AstrologyCalculator\<close> computes, and the transit
  calculator returns no aspect.
\<close>

theorem calculateAspect_misses_wrapped_separation:
  "calculateAspect
     \<lparr>longitude = 359, latitude = 0, speed = Num 0.9856, planet = ''sun'', house = 12,
        sign = 12, nakshatra = 27, nakshatraPada = 4, degree = 29, minutes = 0,
        isRetrograde = False\<rparr>
     \<lparr>longitude = 2, latitude = 0, speed = Num 13.1763, planet = ''moon'', house = 1,
        sign = 1, nakshatra = 1, nakshatraPada = 1, degree = 2, minutes = 0,
        isRetrograde = False\<rparr> 6 = None
   \<and> calculateAspect_core
     \<lparr>longitude = 359, latitude = 0, speed = Num 0.9856, planet = ''sun'', house = 12,
        sign = 12, nakshatra = 27, nakshatraPada = 4, degree = 29, minutes = 0,
        isRetrograde = False\<rparr>
     \<lparr>longitude = 2, latitude = 0, speed = Num 13.1763, planet = ''moon'', house = 1,
        sign = 1, nakshatra = 1, nakshatraPada = 1, degree = 2, minutes = 0,
        isRetrograde = False\<rparr> = Num 3
   \<and> isConjunction
     \<lparr>longitude = 359, latitude = 0, speed = Num 0.9856, planet = ''sun'', house = 12,
        sign = 12, nakshatra = 27, nakshatraPada = 4, degree = 29, minutes = 0,
        isRetrograde = False\<rparr>
     \<lparr>longitude = 2, latitude = 0, speed = Num 13.1763, planet = ''moon'', house = 1,
        sign = 1, nakshatra = 1, nakshatraPada = 1, degree = 2, minutes = 0,
        isRetrograde = False\<rparr> 10"
  by (simp add: calculateAspect_def calculateAspect_core_def isConjunction_def number_eval)

section \<open>Transits\<close>

text \<open>
  C3. The claim: the house of every projected position is derived from the projected
  longitude relative to the natal ascendant, and the ascendant is not moved. The entry of
  the ascendant is returned as it is, but \<open>calculateTransitPosition\<close> passes the body's
  own natal longitude where \<open>calculateHouse\<close> expects the ascendant. For a chart with the
  ascendant at 0 and the Sun at 100 in house 4, a transit to the birth instant itself leaves
  the Sun at 100 and puts it in house 1; relative to the ascendant its house is 4, by the
  rule of \<open>calculateHouse\<close> and by the whole-sign offset alike.
\<close>

theorem calculateAllTransits_house_not_from_ascendant:
  "map (\<lambda>(key, position). (key, longitude position, house position))
     (calculateAllTransits
        (\<lambda>datetime. \<lparr>getTime = Num 946728000000, getFullYear = 2000, getMonth = 0, getDate = 1,
        getHours = 12, getMinutes = 0, getSeconds = 0\<rparr>)
        \<lparr>datetime = ''2000-01-01T12:00:00'', timezone = ''UTC'', chart_latitude = 0,
        chart_longitude = 0, houses = [0, 30, 60, 90, 120, 150, 180, 210, 240, 270, 300, 330],
        planets = [(''ascendant'', \<lparr>longitude = 0, latitude = 0, speed = 0, planet = ''ascendant'', house = 1,
        sign = 1, nakshatra = 1, nakshatraPada = 1, degree = 0, minutes = 0,
        isRetrograde = False\<rparr>),
                   (''sun'', \<lparr>longitude = 100, latitude = 0, speed = Num 0.9856, planet = ''sun'', house = 4,
        sign = 4, nakshatra = 8, nakshatraPada = 3, degree = 10, minutes = 0,
        isRetrograde = False\<rparr>)]\<rparr>
        \<lparr>getTime = Num 946728000000, getFullYear = 2000, getMonth = 0, getDate = 1,
        getHours = 12, getMinutes = 0, getSeconds = 0\<rparr>)
     = [(''ascendant'', Num 0, Num 1), (''sun'', Num 100, Num 1)]
   \<and> calculateHouse (Num 100) (Num 0) = Num 4
   \<and> wholeSignHouse (Num 100) (Num 0) = Num 4"
  by (simp add: calculateAllTransits_def calculateTransitPosition_def daysBetween_def
      DAILY_MOTION_def calculateNakshatra_def calculateSign_def calculateHouse_def
      wholeSignHouse_def decimalToDMS_def normalizeAngle_def NAKSHATRA_SPAN_def PADA_SPAN_def
      SIGN_SPAN_def number_eval Let_def)

text \<open>
  C6. As amended: the projected longitude is
  \<open>normalize(birthLongitude + meanDailyMotion(body) * daysBetween(from, to))\<close>, where
  \<open>daysBetween\<close> is the absolute number of days between the two instants rounded to the
  nearest whole day, a half day rounding up; the Sun, whose tabulated motion is 0.9856
  degrees a day, at natal longitude 0 and projected 100 days later is at 98.56.
\<close>

theorem transit_longitude_by_whole_days:
  "longitude (calculateTransitPosition birthPosition transitDate birthDate)
     = normalizeAngle (longitude birthPosition
         + toNumber (map_of DAILY_MOTION (planet birthPosition))
           * daysBetween birthDate transitDate)
   \<and> daysBetween (date1\<lparr>getTime := Num t1\<rparr>) (date2\<lparr>getTime := Num t2\<rparr>)
     = Num (of_int \<lfloor>\<bar>t2 - t1\<bar> / 86400000 + 1 / 2\<rfloor>)
   \<and> longitude (calculateTransitPosition
        \<lparr>longitude = 0, latitude = 0, speed = Num 0.9856, planet = ''sun'', house = 1,
        sign = 1, nakshatra = 1, nakshatraPada = 1, degree = 0, minutes = 0,
        isRetrograde = False\<rparr>
        \<lparr>getTime = Num 955368000000, getFullYear = 2000, getMonth = 3, getDate = 10,
        getHours = 12, getMinutes = 0, getSeconds = 0\<rparr>
        \<lparr>getTime = Num 946728000000, getFullYear = 2000, getMonth = 0, getDate = 1,
        getHours = 12, getMinutes = 0, getSeconds = 0\<rparr>) = Num 98.56"
proof (intro conjI)
  show "longitude (calculateTransitPosition birthPosition transitDate birthDate)
     = normalizeAngle (longitude birthPosition
         + toNumber (map_of DAILY_MOTION (planet birthPosition))
           * daysBetween birthDate transitDate)"
    by (simp add: calculateTransitPosition_def normalizeAngle_def Let_def split: prod.splits)
  show "daysBetween (date1\<lparr>getTime := Num t1\<rparr>) (date2\<lparr>getTime := Num t2\<rparr>)
     = Num (of_int \<lfloor>\<bar>t2 - t1\<bar> / 86400000 + 1 / 2\<rfloor>)"
    by (simp add: daysBetween_def number_eval)
  show "longitude (calculateTransitPosition
        \<lparr>longitude = 0, latitude = 0, speed = Num 0.9856, planet = ''sun'', house = 1,
        sign = 1, nakshatra = 1, nakshatraPada = 1, degree = 0, minutes = 0,
        isRetrograde = False\<rparr>
        \<lparr>getTime = Num 955368000000, getFullYear = 2000, getMonth = 3, getDate = 10,
        getHours = 12, getMinutes = 0, getSeconds = 0\<rparr>
        \<lparr>getTime = Num 946728000000, getFullYear = 2000, getMonth = 0, getDate = 1,
        getHours = 12, getMinutes = 0, getSeconds = 0\<rparr>) = Num 98.56"
    by (simp add: calculateTransitPosition_def daysBetween_def DAILY_MOTION_def
        number_eval Let_def split: prod.splits)
qed

text \<open>
  The claim C6 as stated fails where the two instants are not a whole number of days
  apart in the forward direction: from noon to the following midnight the signed,
  fractional count is half a day, and the code moves the Sun by a whole day.
\<close>

theorem transit_longitude_not_by_fractional_days:
  "longitude (calculateTransitPosition
        \<lparr>longitude = 0, latitude = 0, speed = Num 0.9856, planet = ''sun'', house = 1,
        sign = 1, nakshatra = 1, nakshatraPada = 1, degree = 0, minutes = 0,
        isRetrograde = False\<rparr>
        \<lparr>getTime = Num 946771200000, getFullYear = 2000, getMonth = 0, getDate = 2,
        getHours = 0, getMinutes = 0, getSeconds = 0\<rparr>
        \<lparr>getTime = Num 946728000000, getFullYear = 2000, getMonth = 0, getDate = 1,
        getHours = 12, getMinutes = 0, getSeconds = 0\<rparr>) = Num 0.9856
   \<and> normalizeAngle (longitude
        \<lparr>longitude = 0, latitude = 0, speed = Num 0.9856, planet = ''sun'', house = 1,
        sign = 1, nakshatra = 1, nakshatraPada = 1, degree = 0, minutes = 0,
        isRetrograde = False\<rparr>
      + toNumber (map_of DAILY_MOTION ''sun'')
        * daysBetween_signed
            \<lparr>getTime = Num 946728000000, getFullYear = 2000, getMonth = 0, getDate = 1,
        getHours = 12, getMinutes = 0, getSeconds = 0\<rparr>
            \<lparr>getTime = Num 946771200000, getFullYear = 2000, getMonth = 0, getDate = 2,
        getHours = 0, getMinutes = 0, getSeconds = 0\<rparr>) = Num 0.4928"
  by (simp add: calculateTransitPosition_def daysBetween_def daysBetween_signed_def
      DAILY_MOTION_def normalizeAngle_def number_eval Let_def split: prod.splits)

text \<open>
  C9. For every birth position and pair of dates, the position \<open>calculateTransitPosition\<close>
  returns has the planet, latitude, speed and retrograde flag of the birth position; it
  differs from the birth position in no field other than longitude, sign, nakshatra,
  nakshatraPada, degree, minutes and house.
\<close>

theorem calculateTransitPosition_frame:
  "planet (calculateTransitPosition birthPosition transitDate birthDate) = planet birthPosition
   \<and> latitude (calculateTransitPosition birthPosition transitDate birthDate)
       = latitude birthPosition
   \<and> speed (calculateTransitPosition birthPosition transitDate birthDate) = speed birthPosition
   \<and> isRetrograde (calculateTransitPosition birthPosition transitDate birthDate)
       = isRetrograde birthPosition
   \<and> calculateTransitPosition birthPosition transitDate birthDate
       = birthPosition
           \<lparr>longitude := longitude (calculateTransitPosition birthPosition transitDate birthDate),
            sign := sign (calculateTransitPosition birthPosition transitDate birthDate),
            nakshatra := nakshatra (calculateTransitPosition birthPosition transitDate birthDate),
            nakshatraPada :=
              nakshatraPada (calculateTransitPosition birthPosition transitDate birthDate),
            degree := degree (calculateTransitPosition birthPosition transitDate birthDate),
            minutes := minutes (calculateTransitPosition birthPosition transitDate birthDate),
            house := house (calculateTransitPosition birthPosition transitDate birthDate)\<rparr>"
  by (simp add: calculateTransitPosition_def Let_def split: prod.splits)

section \<open>Signs, nakshatras and houses\<close>

text \<open>
  C4. The claim: for every real longitude the sign is in \<open>[1, 12]\<close>, the nakshatra in
  \<open>[1, 27]\<close> and the pada in \<open>[1, 4]\<close>, with nakshatra boundaries at the exact multiples of
  \<open>360 / 27\<close>. The constants of the code are the truncated decimals 13.333333 and 3.333333,
  where the comment beside them gives 13 degrees 20 minutes and 3 degrees 20 minutes, so
  27 spans end at 359.999991 and four padas at 13.333332: the longitude 359.999995 is
  given the nakshatra 28, and the longitude 13.3333325 the pada 5.
\<close>

theorem calculateNakshatra_out_of_range:
  "calculateNakshatra (Num 359.999995) = (Num 28, Num 1)
   \<and> calculateNakshatra (Num 13.3333325) = (Num 1, Num 5)"
  by (simp add: calculateNakshatra_def normalizeAngle_def NAKSHATRA_SPAN_def PADA_SPAN_def
      number_eval)

text \<open>
  C7. As amended: the house index is \<open>floor(normalize(longitude - ascendant) / 30) + 1\<close>,
  the number of the 30-degree segment counted from the exact degree of the ascendant. It is
  between 1 and 12. It is the whole-sign offset \<open>((sign(longitude) - sign(ascendant)) mod
  12) + 1\<close> exactly when the body's degree within its sign is not less than the ascendant's
  degree within its sign, and the house before that one (cyclically) otherwise; so it
  depends on the degree offset, not on the two signs alone.
\<close>

theorem calculateHouse_against_whole_sign:
  "calculateHouse (Num l) (Num a) =
     (if normalizeAngle (Num a) mod 30 \<le> normalizeAngle (Num l) mod 30
      then wholeSignHouse (Num l) (Num a)
      else floor_mod (calculateSign (Num l) - calculateSign (Num a) - 1) 12 + 1)
   \<and> 1 \<le> calculateHouse (Num l) (Num a) \<and> calculateHouse (Num l) (Num a) \<le> 12"
proof (intro conjI)
  define L where "L = \<lfloor>l / 30\<rfloor>"
  define A where "A = \<lfloor>a / 30\<rfloor>"
  define dl where "dl = l - 30 * of_int L"
  define da where "da = a - 30 * of_int A"
  have dl: "0 \<le> dl" "dl < 30"
    unfolding dl_def L_def by linarith+
  have da: "0 \<le> da" "da < 30"
    unfolding da_def A_def by linarith+
  have la: "(l - a) / 30 = of_int (L - A) + (dl - da) / 30"
    by (simp add: dl_def da_def field_simps)
  have signs: "calculateSign (Num l) - calculateSign (Num a)
      = Num (of_int (L mod 12 + 1 - (A mod 12 + 1)))"
    by (simp add: calculateSign_Num L_def A_def)
  show "calculateHouse (Num l) (Num a) =
     (if normalizeAngle (Num a) mod 30 \<le> normalizeAngle (Num l) mod 30
      then wholeSignHouse (Num l) (Num a)
      else floor_mod (calculateSign (Num l) - calculateSign (Num a) - 1) 12 + 1)"
  proof (cases "da \<le> dl")
    case True
    have "\<lfloor>(l - a) / 30\<rfloor> = L - A"
      unfolding la using True dl da by (intro floor_unique) simp_all
    then have h: "calculateHouse (Num l) (Num a) = Num (of_int ((L - A) mod 12 + 1))"
      by (simp add: calculateHouse_Num)
    have "(L mod 12 + 1 - (A mod 12 + 1)) mod 12 = (L - A) mod 12"
      by (simp add: mod_diff_eq)
    then have "wholeSignHouse (Num l) (Num a) = Num (of_int ((L - A) mod 12 + 1))"
      unfolding wholeSignHouse_def signs by (simp only: floor_mod_int) (simp add: one_number_def)
    with h True show ?thesis
      by (simp add: degree_Num L_def [symmetric] A_def [symmetric] dl_def [symmetric]
          da_def [symmetric])
  next
    case False
    have "\<lfloor>(l - a) / 30\<rfloor> = L - A - 1"
      unfolding la using False dl da by (intro floor_unique) simp_all
    then have h: "calculateHouse (Num l) (Num a) = Num (of_int ((L - A - 1) mod 12 + 1))"
      by (simp add: calculateHouse_Num)
    have "calculateSign (Num l) - calculateSign (Num a) - 1
        = Num (of_int (L mod 12 + 1 - (A mod 12 + 1) - 1))"
      unfolding signs by (simp add: one_number_def)
    moreover have "(L mod 12 + 1 - (A mod 12 + 1) - 1) mod 12 = (L - A - 1) mod 12"
    proof -
      have "(L mod 12 + 1 - (A mod 12 + 1) - 1) mod 12 = (L mod 12 - A mod 12 - 1) mod 12"
        by simp
      also have "\<dots> = ((L mod 12 - A mod 12) mod 12 - 1) mod 12"
        using mod_diff_left_eq [of "L mod 12 - A mod 12" 12 1] by simp
      also have "\<dots> = ((L - A) mod 12 - 1) mod 12"
        by (simp only: mod_diff_eq)
      also have "\<dots> = (L - A - 1) mod 12"
        using mod_diff_left_eq [of "L - A" 12 1] by simp
      finally show ?thesis .
    qed
    ultimately have "floor_mod (calculateSign (Num l) - calculateSign (Num a) - 1) 12 + 1
        = Num (of_int ((L - A - 1) mod 12 + 1))"
      by (simp only: floor_mod_int) (simp add: one_number_def)
    with h False show ?thesis
      by (simp add: degree_Num L_def [symmetric] A_def [symmetric] dl_def [symmetric]
          da_def [symmetric])
  qed
  have "0 \<le> \<lfloor>(l - a) / 30\<rfloor> mod 12" "\<lfloor>(l - a) / 30\<rfloor> mod 12 < 12"
    by simp_all
  then show "1 \<le> calculateHouse (Num l) (Num a)" "calculateHouse (Num l) (Num a) \<le> 12"
    by (simp_all add: calculateHouse_Num number_eval)
qed

text \<open>
  The claim C7 as stated fails where the body is earlier in its sign than the ascendant
  is in its own: with the ascendant at 20 and the body at 10, both in the first sign, the
  whole-sign offset is house 1 and the code assigns house 12.
\<close>

theorem calculateHouse_not_whole_sign:
  "calculateHouse (Num 10) (Num 20) = Num 12
   \<and> wholeSignHouse (Num 10) (Num 20) = Num 1"
  by (simp add: calculateHouse_def wholeSignHouse_def calculateSign_def normalizeAngle_def
      SIGN_SPAN_def number_eval)

section \<open>Dignities\<close>

text \<open>
  C10. For every planet name and every sign, \<open>isExalted\<close> and \<open>isDebilitated\<close> are never both
  true; and for each of the seven planets of the tables the debilitation sign is the sign
  opposite the exaltation sign, six signs further modulo 12.
\<close>

theorem exaltation_opposite_debilitation:
  "\<not> (isExalted planet' sign' \<and> isDebilitated planet' sign')
   \<and> (isExalted planet' (Num (of_int k))
        \<longrightarrow> isDebilitated planet' (Num (of_int ((k + 5) mod 12 + 1))))
   \<and> (isDebilitated planet' (Num (of_int k))
        \<longrightarrow> isExalted planet' (Num (of_int ((k + 5) mod 12 + 1))))
   \<and> map fst exaltations
        = [''sun'', ''moon'', ''mars'', ''mercury'', ''jupiter'', ''venus'', ''saturn'']
   \<and> map fst debilitations = map fst exaltations"
proof (intro conjI)
  show "\<not> (isExalted planet' sign' \<and> isDebilitated planet' sign')"
    by (cases sign')
      (auto simp add: isExalted_def isDebilitated_def exaltations_def debilitations_def
        number_eval split: if_splits)
  show "isExalted planet' (Num (of_int k))
      \<longrightarrow> isDebilitated planet' (Num (of_int ((k + 5) mod 12 + 1)))"
    by (auto simp add: isExalted_def isDebilitated_def exaltations_def debilitations_def
        number_eval split: if_splits)
  show "isDebilitated planet' (Num (of_int k))
      \<longrightarrow> isExalted planet' (Num (of_int ((k + 5) mod 12 + 1)))"
    by (auto simp add: isExalted_def isDebilitated_def exaltations_def debilitations_def
        number_eval split: if_splits)
  show "map fst exaltations
      = [''sun'', ''moon'', ''mars'', ''mercury'', ''jupiter'', ''venus'', ''saturn'']"
    by (simp add: exaltations_def)
  show "map fst debilitations = map fst exaltations"
    by (simp add: exaltations_def debilitations_def)
qed

text \<open>The Sun: exalted in the first sign, debilitated in the seventh, and not both in one.\<close>

theorem exaltation_opposite_debilitation_witness:
  "isExalted ''sun'' (Num (of_int 1))
   \<and> isDebilitated ''sun'' (Num (of_int ((1 + 5) mod 12 + 1)))
   \<and> isDebilitated ''sun'' (Num (of_int 7))
   \<and> isExalted ''sun'' (Num (of_int ((7 + 5) mod 12 + 1)))
   \<and> \<not> (isExalted ''sun'' 1 \<and> isDebilitated ''sun'' 1)"
proof -
  have e: "isExalted ''sun'' (Num (of_int 1))"
    by (simp add: isExalted_def exaltations_def number_eval)
  have d: "isDebilitated ''sun'' (Num (of_int 7))"
    by (simp add: isDebilitated_def debilitations_def number_eval)
  from exaltation_opposite_debilitation [of "''sun''" 1 1] e
  have "isDebilitated ''sun'' (Num (of_int ((1 + 5) mod 12 + 1)))"
    and "\<not> (isExalted ''sun'' 1 \<and> isDebilitated ''sun'' 1)"
    by blast+
  moreover from exaltation_opposite_debilitation [of "''sun''" 1 7] d
  have "isExalted ''sun'' (Num (of_int ((7 + 5) mod 12 + 1)))"
    by blast
  ultimately show ?thesis
    using e d by blast
qed

section \<open>Dasha periods\<close>

lemma mod9_nat: "Num (of_nat a) mod 9 = Num (of_nat (a mod 9))"
proof -
  have "\<lfloor>real a / 9\<rfloor> = int (a div 9)"
    using floor_divide_of_nat_eq [of a 9, where ?'a = real] by simp
  moreover have "real a = 9 * real (a div 9) + real (a mod 9)"
    using mult_div_mod_eq [of 9 a] by (metis of_nat_add of_nat_mult of_nat_numeral)
  ultimately show ?thesis
    by (simp add: numeral_number trunc_def)
qed

lemma length_lords: "length NAKSHATRA_LORDS = 9"
  by (simp add: NAKSHATRA_LORDS_def)

lemma array_get_lords:
  "j < 9 \<Longrightarrow> array_get NAKSHATRA_LORDS (Num (of_nat j)) = Some (NAKSHATRA_LORDS ! j)"
  by (simp add: length_lords)

lemma lords_nth: "j < 9 \<Longrightarrow> NAKSHATRA_LORDS ! j \<in> set NAKSHATRA_LORDS"
  by (simp add: length_lords)

lemma dasha_years_all:
  "list_all (\<lambda>lord. \<exists>c. DASHA_YEARS_get (Some lord) = Some (Num c)) NAKSHATRA_LORDS"
  by (simp add: NAKSHATRA_LORDS_def DASHA_YEARS_def numeral_number)

lemma dasha_years_lords:
  "lord \<in> set NAKSHATRA_LORDS \<Longrightarrow> \<exists>c. DASHA_YEARS_get (Some lord) = Some (Num c)"
  using dasha_years_all by (simp add: list_all_iff)

lemma indexOf_all:
  "map (\<lambda>lord. indexOf NAKSHATRA_LORDS (Some lord)) NAKSHATRA_LORDS
     = map (\<lambda>k. Num (of_nat k)) [0..<9]"
  by (simp add: NAKSHATRA_LORDS_def number_eval upt_rec)

lemma indexOf_lords:
  assumes "s < 9"
  shows "indexOf NAKSHATRA_LORDS (Some (NAKSHATRA_LORDS ! s)) = Num (of_nat s)"
proof -
  have "map (\<lambda>lord. indexOf NAKSHATRA_LORDS (Some lord)) NAKSHATRA_LORDS ! s
      = map (\<lambda>k. Num (of_nat k)) [0..<9] ! s"
    by (simp only: indexOf_all)
  with assms show ?thesis
    by (simp add: length_lords del: upt_Suc)
qed

lemma antar_all:
  "list_all (\<lambda>lord. length (calculateAntarDasha fns (Some lord) date (Num y)) = 9
       \<and> sum_list (map years (calculateAntarDasha fns (Some lord) date (Num y))) = Num y)
     NAKSHATRA_LORDS"
  by (simp add: calculateAntarDasha_def NAKSHATRA_LORDS_def DASHA_YEARS_def number_eval Let_def)

lemma antar_lords:
  "lord \<in> set NAKSHATRA_LORDS \<Longrightarrow>
     length (calculateAntarDasha fns (Some lord) date (Num y)) = 9
     \<and> sum_list (map years (calculateAntarDasha fns (Some lord) date (Num y))) = Num y"
  using antar_all [of fns date y] by (simp add: list_all_iff)


lemma dasha_loop_periods:
  assumes "indexOf NAKSHATRA_LORDS startLord = Num (of_nat s)" and "s < 9"
    and "\<forall>i\<in>set is. \<exists>k::nat. i = Num (of_nat k)"
    and "\<forall>p\<in>set dashas. \<exists>lord d y. lord \<in> set NAKSHATRA_LORDS \<and> dasha_planet p = Some lord
           \<and> years p = Num y \<and> subPeriods p = Some (calculateAntarDasha fns (Some lord) d (Num y))"
  shows "\<forall>p\<in>set (calculateDashaPeriods_loop fns startLord (Num b) is date fs dashas).
           \<exists>lord d y. lord \<in> set NAKSHATRA_LORDS \<and> dasha_planet p = Some lord
           \<and> years p = Num y \<and> subPeriods p = Some (calculateAntarDasha fns (Some lord) d (Num y))"
  using assms(3,4)
proof (induction "is" arbitrary: date fs dashas)
  case Nil
  then show ?case by simp
next
  case (Cons i "is")
  from Cons.prems(1) obtain k :: nat where i: "i = Num (of_nat k)"
    by auto
  define j where "j = (s + k) mod 9"
  have j: "j < 9" by (simp add: j_def)
  have idx: "(indexOf NAKSHATRA_LORDS startLord + i) mod 9 = Num (of_nat j)"
    using mod9_nat [of "s + k"] by (simp add: assms(1) i j_def)
  define lord where "lord = NAKSHATRA_LORDS ! j"
  have lord: "lord \<in> set NAKSHATRA_LORDS"
    unfolding lord_def using j by (rule lords_nth)
  have get: "array_get NAKSHATRA_LORDS (Num (of_nat j)) = Some lord"
    unfolding lord_def using j by (rule array_get_lords)
  from dasha_years_lords [OF lord] obtain c where c: "DASHA_YEARS_get (Some lord) = Some (Num c)"
    by blast
  define y where "y = (if fs then c else b)"
  have yrs: "(if fs then toNumber (DASHA_YEARS_get (Some lord)) else Num b) = Num y"
    by (simp add: c y_def del: DASHA_YEARS_get.simps)
  define p where "p = DashaPeriod (Some lord) (format fns date ''yyyy-MM-dd'')
      (format fns (addYears fns date (Num y)) ''yyyy-MM-dd'') (Num y)
      (Some (calculateAntarDasha fns (Some lord) date (Num y)))"
  have step: "calculateDashaPeriods_loop fns startLord (Num b) (i # is) date fs dashas
      = calculateDashaPeriods_loop fns startLord (Num b) is (addYears fns date (Num y)) True
          (dashas @ [p])"
    by (simp only: calculateDashaPeriods_loop.simps idx get yrs Let_def p_def)
  have "\<forall>q\<in>set (dashas @ [p]). \<exists>lord d y. lord \<in> set NAKSHATRA_LORDS
      \<and> dasha_planet q = Some lord \<and> years q = Num y
      \<and> subPeriods q = Some (calculateAntarDasha fns (Some lord) d (Num y))"
    using Cons.prems(2) lord by (auto simp: p_def)
  moreover have "\<forall>i\<in>set is. \<exists>k::nat. i = Num (of_nat k)"
    using Cons.prems(1) by simp
  ultimately show ?case
    unfolding step by (intro Cons.IH)
qed


lemma getNakshatraLord_valid:
  assumes "1 \<le> n"
  shows "getNakshatraLord (Num (of_nat n)) = Some (NAKSHATRA_LORDS ! ((n - 1) mod 9))"
proof -
  have "Num (of_nat n) - 1 = Num (of_nat (n - 1))"
    using assms by (simp add: one_number_def of_nat_diff)
  then have "(Num (of_nat n) - 1) mod 9 = Num (of_nat ((n - 1) mod 9))"
    by (simp only: mod9_nat)
  moreover have "(n - 1) mod 9 < 9"
    by simp
  ultimately show ?thesis
    unfolding getNakshatraLord_def by (simp only: array_get_lords)
qed

lemma calculateDashaBalance_valid:
  assumes "1 \<le> n"
  shows "\<exists>b. calculateDashaBalance (Num (of_nat n)) (Num d) = Num b"
proof -
  have "NAKSHATRA_LORDS ! ((n - 1) mod 9) \<in> set NAKSHATRA_LORDS"
    by (rule lords_nth) simp
  from dasha_years_lords [OF this] obtain c
    where "DASHA_YEARS_get (Some (NAKSHATRA_LORDS ! ((n - 1) mod 9))) = Some (Num c)"
    by blast
  then have "calculateDashaBalance (Num (of_nat n)) (Num d)
      = Num ((13 + 1 / 3 - d) / (13 + 1 / 3) * c)"
    unfolding calculateDashaBalance_def getNakshatraLord_valid [OF assms]
    by (simp add: number_eval del: DASHA_YEARS_get.simps)
  then show ?thesis
    by blast
qed

lemma length_calculateDashaPeriods_loop:
  "length (calculateDashaPeriods_loop fns startLord balance is date fs dashas)
     = length dashas + length is"
  by (induction "is" arbitrary: date fs dashas) (simp_all add: Let_def del: indexOf.simps)

lemma length_calculateDashaPeriods:
  "length (calculateDashaPeriods fns birthDate nakshatra' degrees) = 9"
  by (simp add: calculateDashaPeriods_def length_calculateDashaPeriods_loop Let_def)

text \<open>
  C5. For every top-level period that \<open>calculateDashaPeriods\<close> produces for a birth nakshatra
  from 1 to 27 and a degree residual, the nine sub-periods that \<open>calculateAntarDasha\<close> gave it
  have durations whose sum is the duration of the period, to within \<open>1e-9\<close> years. On the
  real numbers of the embedding the sum is the duration exactly, as the nine allotments
  add up to 120.
\<close>

theorem antar_dasha_years_sum:
  assumes "1 \<le> n" and "n \<le> 27"
    and "p \<in> set (calculateDashaPeriods fns birthDate (Num (of_nat n)) (Num d))"
  shows "\<exists>subs date. subPeriods p = Some subs
           \<and> subs = calculateAntarDasha fns (dasha_planet p) date (years p)
           \<and> length subs = 9
           \<and> sum_list (map years subs) = years p
           \<and> Math_abs (sum_list (map years subs) - years p) \<le> Num (1 / 10 ^ 9)"
proof -
  define s where "s = (n - 1) mod 9"
  have s: "s < 9" by (simp add: s_def)
  have start: "getNakshatraLord (Num (of_nat n)) = Some (NAKSHATRA_LORDS ! s)"
    unfolding s_def using assms(1) by (rule getNakshatraLord_valid)
  obtain b where b: "calculateDashaBalance (Num (of_nat n)) (Num d) = Num b"
    using calculateDashaBalance_valid [OF assms(1)] by blast
  have idx: "indexOf NAKSHATRA_LORDS (Some (NAKSHATRA_LORDS ! s)) = Num (of_nat s)"
    using s by (rule indexOf_lords)
  have idxs: "\<forall>i\<in>set [0, 1, 2, 3, 4, 5, 6, 7, 8 :: number]. \<exists>k::nat. i = Num (of_nat k)"
  proof
    fix i :: number
    assume "i \<in> set [0, 1, 2, 3, 4, 5, 6, 7, 8]"
    then have "i \<in> (\<lambda>k. Num (of_nat k)) ` {0, 1, 2, 3, 4, 5, 6, 7, 8 :: nat}"
      by (simp add: number_eval)
    then show "\<exists>k::nat. i = Num (of_nat k)" by blast
  qed
  have "\<forall>q\<in>set (calculateDashaPeriods_loop fns (Some (NAKSHATRA_LORDS ! s)) (Num b)
            [0, 1, 2, 3, 4, 5, 6, 7, 8] birthDate False []).
          \<exists>lord d y. lord \<in> set NAKSHATRA_LORDS \<and> dasha_planet q = Some lord
            \<and> years q = Num y
            \<and> subPeriods q = Some (calculateAntarDasha fns (Some lord) d (Num y))"
    using idx s idxs by (rule dasha_loop_periods) simp
  moreover have "p \<in> set (calculateDashaPeriods_loop fns (Some (NAKSHATRA_LORDS ! s)) (Num b)
            [0, 1, 2, 3, 4, 5, 6, 7, 8] birthDate False [])"
    using assms(3) by (simp add: calculateDashaPeriods_def start b Let_def)
  ultimately obtain lord date y where lord: "lord \<in> set NAKSHATRA_LORDS"
    and p: "dasha_planet p = Some lord" "years p = Num y"
      "subPeriods p = Some (calculateAntarDasha fns (Some lord) date (Num y))"
    by blast
  from antar_lords [OF lord, of fns date y]
  have "length (calculateAntarDasha fns (Some lord) date (Num y)) = 9"
    and "sum_list (map years (calculateAntarDasha fns (Some lord) date (Num y))) = Num y"
    by simp_all
  with p show ?thesis
    by (intro exI [of _ "calculateAntarDasha fns (Some lord) date (Num y)"] exI [of _ date])
      (simp add: Math_abs_def)
qed

text \<open>
  The first period of a birth in the first nakshatra, at its very start; the functions of
  the date library are stand-ins here, as the durations do not depend on them.
\<close>

theorem antar_dasha_years_sum_witness:
  "(1::nat) \<le> 1 \<and> (1::nat) \<le> 27
   \<and> hd (calculateDashaPeriods \<lparr>addYears = (\<lambda>d y. d), addMonths = (\<lambda>d m. d), format = (\<lambda>d f. f)\<rparr>
        \<lparr>getTime = 0, getFullYear = 2000, getMonth = 0, getDate = 1, getHours = 12,
         getMinutes = 0, getSeconds = 0\<rparr> (Num (of_nat 1)) (Num 0))
     \<in> set (calculateDashaPeriods \<lparr>addYears = (\<lambda>d y. d), addMonths = (\<lambda>d m. d), format = (\<lambda>d f. f)\<rparr>
        \<lparr>getTime = 0, getFullYear = 2000, getMonth = 0, getDate = 1, getHours = 12,
         getMinutes = 0, getSeconds = 0\<rparr> (Num (of_nat 1)) (Num 0))
   \<and> (\<exists>subs. subPeriods (hd (calculateDashaPeriods
          \<lparr>addYears = (\<lambda>d y. d), addMonths = (\<lambda>d m. d), format = (\<lambda>d f. f)\<rparr>
          \<lparr>getTime = 0, getFullYear = 2000, getMonth = 0, getDate = 1, getHours = 12,
           getMinutes = 0, getSeconds = 0\<rparr> (Num (of_nat 1)) (Num 0))) = Some subs
        \<and> length subs = 9
        \<and> Math_abs (sum_list (map years subs) - years (hd (calculateDashaPeriods
          \<lparr>addYears = (\<lambda>d y. d), addMonths = (\<lambda>d m. d), format = (\<lambda>d f. f)\<rparr>
          \<lparr>getTime = 0, getFullYear = 2000, getMonth = 0, getDate = 1, getHours = 12,
           getMinutes = 0, getSeconds = 0\<rparr> (Num (of_nat 1)) (Num 0)))) \<le> Num (1 / 10 ^ 9))"
proof -
  let ?ps = "calculateDashaPeriods \<lparr>addYears = (\<lambda>d y. d), addMonths = (\<lambda>d m. d), format = (\<lambda>d f. f)\<rparr>
        \<lparr>getTime = 0, getFullYear = 2000, getMonth = 0, getDate = 1, getHours = 12,
         getMinutes = 0, getSeconds = 0\<rparr> (Num (of_nat 1)) (Num 0)"
  have "?ps \<noteq> []"
    using length_calculateDashaPeriods [of _ _ "Num (of_nat 1)" "Num 0"] by (metis length_0_conv zero_neq_numeral)
  then have m: "hd ?ps \<in> set ?ps"
    by (rule hd_in_set)
  have n: "(1::nat) \<le> 1" "(1::nat) \<le> 27" by simp_all
  from antar_dasha_years_sum [OF n m] show ?thesis
    using m by auto
qed

section \<open>House cusps\<close>






end
